theory Spec2Isabelle
  imports Main
begin

section \<open>The pipeline document\<close>

text \<open>
  \<^verbatim>\<open>to_github_actions\<close> returns a Python \<^verbatim>\<open>dict[str, Any]\<close> built from nested dict
  literals, list literals and strings. A dict is kept as the list of its items in the
  order the literal writes them (Python dicts keep insertion order); the literals of the
  source repeat no key.
\<close>

datatype json =
    JStr string
  | JList "json list"
  | JDict "(string \<times> json) list"

text \<open>Reading a document: \<^verbatim>\<open>d[k]\<close>, \<^verbatim>\<open>d.keys()\<close>, the items of a list.\<close>

fun lookup :: "string \<Rightarrow> json \<Rightarrow> json option" where
  "lookup k (JDict kvs) = map_of kvs k"
| "lookup k (JStr s) = None"
| "lookup k (JList xs) = None"

fun lookup_path :: "string list \<Rightarrow> json \<Rightarrow> json option" where
  "lookup_path [] j = Some j"
| "lookup_path (k # ks) j =
     (case lookup k j of None \<Rightarrow> None | Some j' \<Rightarrow> lookup_path ks j')"

fun dict_keys :: "json \<Rightarrow> string list option" where
  "dict_keys (JDict kvs) = Some (map fst kvs)"
| "dict_keys (JStr s) = None"
| "dict_keys (JList xs) = None"

fun list_items :: "json \<Rightarrow> json list option" where
  "list_items (JList xs) = Some xs"
| "list_items (JStr s) = None"
| "list_items (JDict kvs) = None"

text \<open>Whether a key occurs anywhere inside a document, at any depth.\<close>

fun has_key :: "string \<Rightarrow> json \<Rightarrow> bool"
  and has_key_list :: "string \<Rightarrow> json list \<Rightarrow> bool"
  and has_key_items :: "string \<Rightarrow> (string \<times> json) list \<Rightarrow> bool" where
  "has_key k (JStr s) = False"
| "has_key k (JList xs) = has_key_list k xs"
| "has_key k (JDict kvs) = has_key_items k kvs"
| "has_key_list k [] = False"
| "has_key_list k (x # xs) = (has_key k x \<or> has_key_list k xs)"
| "has_key_items k [] = False"
| "has_key_items k ((k', v) # kvs) = (k' = k \<or> has_key k v \<or> has_key_items k kvs)"

section \<open>The configuration model\<close>

text \<open>
  \<^verbatim>\<open>@dataclass class CIConfig\<close>: three fields with defaults; \<^verbatim>\<open>platforms\<close> is a
  tuple of strings.
\<close>

record CIConfig =
  rust_version :: string
  rust_msrv :: string
  platforms :: "string list"

definition CIConfig_default :: CIConfig where
  "CIConfig_default =
     \<lparr> rust_version = ''stable'',
       rust_msrv = ''1.70.0'',
       platforms = [''ubuntu-latest'', ''macos-latest'', ''windows-latest''] \<rparr>"

section \<open>The renderer\<close>

text \<open>
  \<^verbatim>\<open>to_github_actions\<close> is a method: \<^verbatim>\<open>self\<close> is an instance of \<^verbatim>\<open>CIConfig\<close> or of a
  subclass, and may carry attributes besides the three fields. The method reads the three
  fields and nothing else, neither of \<^verbatim>\<open>self\<close> nor of the process.
\<close>

definition to_github_actions :: "'a CIConfig_scheme \<Rightarrow> json" where
  "to_github_actions self =
     JDict [
       (''name'', JStr ''CI''),
       (''on'', JDict [
          (''push'', JDict [(''branches'', JList [JStr ''main''])]),
          (''pull_request'', JDict [(''branches'', JList [JStr ''main''])])]),
       (''env'', JDict [
          (''CARGO_TERM_COLOR'', JStr ''always'')]),
       (''jobs'', JDict [
          (''test'', JDict [
             (''name'', JStr ''Test''),
             (''runs-on'', JStr ''${{ matrix.os }}''),
             (''strategy'', JDict [
                (''matrix'', JDict [
                   (''os'', JList (map JStr (platforms self))),
                   (''rust'', JList [JStr (rust_version self), JStr (rust_msrv self)])])]),
             (''steps'', JList [
                JDict [(''uses'', JStr ''actions/checkout@v4'')],
                JDict [
                  (''name'', JStr ''Install Rust''),
                  (''uses'', JStr ''dtolnay/rust-toolchain@master''),
                  (''with'', JDict [(''toolchain'', JStr ''${{ matrix.rust }}'')])],
                JDict [(''name'', JStr ''Build''), (''run'', JStr ''cargo build --workspace'')],
                JDict [(''name'', JStr ''Test''), (''run'', JStr ''cargo test --workspace'')]])]),
          (''lint'', JDict [
             (''name'', JStr ''Lint''),
             (''runs-on'', JStr ''ubuntu-latest''),
             (''steps'', JList [
                JDict [(''uses'', JStr ''actions/checkout@v4'')],
                JDict [
                  (''name'', JStr ''Install Rust''),
                  (''uses'', JStr ''dtolnay/rust-toolchain@stable''),
                  (''with'', JDict [(''components'', JStr ''rustfmt, clippy'')])],
                JDict [(''name'', JStr ''Format''), (''run'', JStr ''cargo fmt --all -- --check'')],
                JDict [
                  (''name'', JStr ''Clippy''),
                  (''run'', JStr ''cargo clippy --workspace -- -D warnings'')]])]),
          (''wasm'', JDict [
             (''name'', JStr ''WASM Build''),
             (''runs-on'', JStr ''ubuntu-latest''),
             (''steps'', JList [
                JDict [(''uses'', JStr ''actions/checkout@v4'')],
                JDict [
                  (''name'', JStr ''Install Rust''),
                  (''uses'', JStr ''dtolnay/rust-toolchain@stable''),
                  (''with'', JDict [(''targets'', JStr ''wasm32-unknown-unknown'')])],
                JDict [
                  (''name'', JStr ''Install wasm-pack''),
                  (''run'', JStr ''cargo install wasm-pack'')],
                JDict [
                  (''name'', JStr ''Build WASM''),
                  (''run'', JStr ''wasm-pack build crates/utf8dok-wasm --target web'')]])])])]"

section \<open>The file system and the standard output\<close>

text \<open>
  \<^verbatim>\<open>generate_workflow\<close> calls \<^verbatim>\<open>output_path.parent.mkdir(parents=True, exist_ok=True)\<close>
  and \<^verbatim>\<open>print\<close>. A \<^verbatim>\<open>pathlib.Path\<close> relative to the working directory is the list of
  its parts (\<^verbatim>\<open>Path(".github/workflows/ci.yml").parts\<close>); the empty list is
  \<^verbatim>\<open>Path(".")\<close>. The file system maps a path to what is found there; the working
  directory itself always is a directory. Paths are POSIX paths. The file system holds
  directories and regular files only: links, special files, permissions and the other
  faults of an operating system are not modelled, so the real \<^verbatim>\<open>mkdir\<close> can raise in
  cases where the one here does not.
\<close>

type_synonym path = "string list"

datatype node = Directory | RegularFile string

type_synonym filesystem = "path \<Rightarrow> node option"

datatype os_error = FileNotFoundError | FileExistsError | NotADirectoryError

text \<open>\<^verbatim>\<open>Path.parent\<close>; \<^verbatim>\<open>Path(".").parent == Path(".")\<close>.\<close>

definition parent :: "path \<Rightarrow> path" where
  "parent p = butlast p"

text \<open>
  \<^verbatim>\<open>os.stat\<close>: a path is resolved part by part from the working directory. A part
  that is missing gives \<^verbatim>\<open>FileNotFoundError\<close>, a regular file that is not the last part
  gives \<^verbatim>\<open>NotADirectoryError\<close>.
\<close>

function os_stat :: "filesystem \<Rightarrow> path \<Rightarrow> os_error + node" where
  "os_stat fs p =
     (if p = [] then Inr Directory
      else case os_stat fs (parent p) of
             Inl e \<Rightarrow> Inl e
           | Inr (RegularFile c) \<Rightarrow> Inl NotADirectoryError
           | Inr Directory \<Rightarrow>
               (case fs p of
                  None \<Rightarrow> Inl FileNotFoundError
                | Some n \<Rightarrow> Inr n))"
  by pat_completeness auto
termination
  by (relation "measure (\<lambda>(fs, p). length p)") (auto simp: parent_def)

declare os_stat.simps [simp del]

text \<open>\<^verbatim>\<open>Path.is_dir\<close>, which is false when the path cannot be resolved.\<close>

definition is_dir :: "filesystem \<Rightarrow> path \<Rightarrow> bool" where
  "is_dir fs p = (os_stat fs p = Inr Directory)"

text \<open>The contents of the regular files of a file system.\<close>

definition regular_files :: "filesystem \<Rightarrow> path \<Rightarrow> string option" where
  "regular_files fs p =
     (case fs p of
        Some (RegularFile c) \<Rightarrow> Some c
      | Some Directory \<Rightarrow> None
      | None \<Rightarrow> None)"

text \<open>
  \<^verbatim>\<open>os.mkdir\<close>: the parent must resolve to a directory and the path itself must not
  exist. The result is the exception raised, if any, and the file system afterwards.
\<close>

definition os_mkdir :: "path \<Rightarrow> filesystem \<Rightarrow> os_error option \<times> filesystem" where
  "os_mkdir p fs =
     (if p = [] then (Some FileExistsError, fs)
      else case os_stat fs (parent p) of
             Inl e \<Rightarrow> (Some e, fs)
           | Inr (RegularFile c) \<Rightarrow> (Some NotADirectoryError, fs)
           | Inr Directory \<Rightarrow>
               (case fs p of
                  Some n \<Rightarrow> (Some FileExistsError, fs)
                | None \<Rightarrow> (None, fs(p \<mapsto> Directory))))"

text \<open>
  \<^verbatim>\<open>Path.mkdir(parents, exist_ok)\<close> of the standard library tries \<^verbatim>\<open>os.mkdir\<close>. On
  \<^verbatim>\<open>FileNotFoundError\<close> it re-raises unless \<^verbatim>\<open>parents\<close> is set and the path has a
  parent other than itself, in which case it makes the parent (with both flags set) and
  then the path again without \<^verbatim>\<open>parents\<close>. On any other \<^verbatim>\<open>OSError\<close> it re-raises
  unless \<^verbatim>\<open>exist_ok\<close> is set and the path is a directory.
\<close>

function path_mkdir ::
  "bool \<Rightarrow> bool \<Rightarrow> path \<Rightarrow> filesystem \<Rightarrow> os_error option \<times> filesystem" where
  "path_mkdir parents exist_ok p fs =
     (case os_mkdir p fs of
        (None, fs') \<Rightarrow> (None, fs')
      | (Some e, fs') \<Rightarrow>
          if e = FileNotFoundError then
            (if \<not> parents \<or> parent p = p then (Some e, fs')
             else case path_mkdir True True (parent p) fs' of
                    (Some e', fs'') \<Rightarrow> (Some e', fs'')
                  | (None, fs'') \<Rightarrow> path_mkdir False exist_ok p fs'')
          else if \<not> exist_ok \<or> \<not> is_dir fs' p then (Some e, fs')
          else (None, fs'))"
  by pat_completeness auto
termination
proof (relation
    "measure (\<lambda>(parents, exist_ok, p, fs). 2 * length p + (if parents then 1 else 0))")
  fix parents :: bool and p :: path
  assume "\<not> (\<not> parents \<or> parent p = p)"
  then have "parents" and "p \<noteq> []"
    by (auto simp: parent_def)
  then show "((True, True, parent p, fs'), (parents, exist_ok, p, fs))
      \<in> measure (\<lambda>(parents, exist_ok, p, fs). 2 * length p + (if parents then 1 else 0))"
    for fs fs' :: filesystem and exist_ok
    by (cases p) (auto simp: parent_def)
qed auto

declare path_mkdir.simps [simp del]

text \<open>
  What the process can change: the file system, and the standard output as the list of
  the strings given to \<^verbatim>\<open>print\<close>, one entry for each call.
\<close>

record world =
  disk :: filesystem
  stdout :: "string list"

definition print_py :: "string \<Rightarrow> world \<Rightarrow> world" where
  "print_py s w = w\<lparr>stdout := stdout w @ [s]\<rparr>"

text \<open>\<^verbatim>\<open>sep.join(xs)\<close> and \<^verbatim>\<open>str(path)\<close>.\<close>

fun join_py :: "string \<Rightarrow> string list \<Rightarrow> string" where
  "join_py sep [] = []"
| "join_py sep [x] = x"
| "join_py sep (x # y # ys) = x @ sep @ join_py sep (y # ys)"

definition str_path :: "path \<Rightarrow> string" where
  "str_path p = (if p = [] then ''.'' else join_py ''/'' p)"

section \<open>The commands\<close>

text \<open>
  \<^verbatim>\<open>generate_workflow\<close> returns \<^verbatim>\<open>None\<close> or lets the exception of \<^verbatim>\<open>mkdir\<close> through.
  The rendered workflow is bound and not used again.
\<close>

definition generate_workflow :: "path \<Rightarrow> world \<Rightarrow> os_error option \<times> world" where
  "generate_workflow output_path w =
     (let config = CIConfig_default;
          workflow = to_github_actions config
      in case path_mkdir True True (parent output_path) (disk w) of
           (Some e, fs') \<Rightarrow> (Some e, w\<lparr>disk := fs'\<rparr>)
         | (None, fs') \<Rightarrow>
             (let w1 = w\<lparr>disk := fs'\<rparr>;
                  w2 = print_py (''Generated CI configuration for: ''
                                  @ join_py '', '' (platforms config)) w1;
                  w3 = print_py (''Rust versions: '' @ rust_version config
                                  @ '', MSRV: '' @ rust_msrv config) w2;
                  w4 = print_py (''Output would be written to: '' @ str_path output_path) w3
              in (None, w4)))"

text \<open>The module's docstring, which \<^verbatim>\<open>print(__doc__)\<close> prints.\<close>

definition module_doc :: string where
  "module_doc =
     concat (map (\<lambda>l. l @ [CHR 0x0A]) [
       [],
       ''utf8dok CI/CD Infrastructure as Code'',
       [],
       ''This script generates and manages CI/CD pipeline configurations.'',
       ''Currently supports GitHub Actions, with extensibility for other platforms.'',
       [],
       ''Usage:'',
       ''    python ci-cd.py generate    # Generate CI configuration'',
       ''    python ci-cd.py validate    # Validate existing configuration''])"

text \<open>
  \<^verbatim>\<open>main\<close> reads \<^verbatim>\<open>sys.argv\<close>. \<^verbatim>\<open>Inr n\<close> is the value it returns, which
  \<^verbatim>\<open>sys.exit\<close> makes the exit code; \<^verbatim>\<open>Inl e\<close> is an exception that leaves \<^verbatim>\<open>main\<close>
  uncaught.
\<close>

definition main_py :: "string list \<Rightarrow> world \<Rightarrow> (os_error + int) \<times> world" where
  "main_py argv w =
     (if length argv < 2 then (Inr 1, print_py module_doc w)
      else
        let command = argv ! 1 in
        if command = ''generate'' then
          (let output = [''.github'', ''workflows'', ''ci.yml''] in
           case generate_workflow output w of
             (Some e, w') \<Rightarrow> (Inl e, w')
           | (None, w') \<Rightarrow> (Inr 0, w'))
        else if command = ''validate'' then
          (Inr 0, print_py ''Validation not yet implemented'' w)
        else (Inr 1, print_py (''Unknown command: '' @ command) w))"

text \<open>
  Four working directories to start from: an empty one; one that already holds a
  workflow file; one where \<^verbatim>\<open>.github\<close> is a regular file; and one where
  \<^verbatim>\<open>.github/workflows\<close> is a regular file.
\<close>

definition world_empty :: world where
  "world_empty = \<lparr> disk = (\<lambda>p. None), stdout = [] \<rparr>"

definition world_stale :: world where
  "world_stale =
     \<lparr> disk = (\<lambda>p. None)(
         [''.github''] \<mapsto> Directory,
         [''.github'', ''workflows''] \<mapsto> Directory,
         [''.github'', ''workflows'', ''ci.yml''] \<mapsto> RegularFile ''name: old''),
       stdout = [] \<rparr>"

definition world_blocked :: world where
  "world_blocked =
     \<lparr> disk = (\<lambda>p. None)([''.github''] \<mapsto> RegularFile ''notes''),
       stdout = [] \<rparr>"

definition world_clash :: world where
  "world_clash =
     \<lparr> disk = (\<lambda>p. None)(
         [''.github''] \<mapsto> Directory,
         [''.github'', ''workflows''] \<mapsto> RegularFile ''notes''),
       stdout = [] \<rparr>"

text \<open>
  \<^verbatim>\<open>only_adds_dirs p fs fs'\<close>: from \<^verbatim>\<open>fs\<close> to \<^verbatim>\<open>fs'\<close> nothing changed but, possibly,
  that leading parts of \<^verbatim>\<open>p\<close> that did not exist became directories.
\<close>

definition only_adds_dirs :: "path \<Rightarrow> filesystem \<Rightarrow> filesystem \<Rightarrow> bool" where
  "only_adds_dirs p fs fs' =
     (\<forall>q. fs' q = fs q
        \<or> (fs q = None \<and> fs' q = Some Directory \<and> q \<noteq> [] \<and> take (length q) p = q))"

section \<open>Creating directories\<close>

lemma os_stat_Nil: "os_stat fs [] = Inr Directory"
  by (simp add: os_stat.simps)

lemma os_stat_snoc:
  "os_stat fs (q @ [x]) =
     (case os_stat fs q of
        Inl e \<Rightarrow> Inl e
      | Inr (RegularFile c) \<Rightarrow> Inl NotADirectoryError
      | Inr Directory \<Rightarrow>
          (case fs (q @ [x]) of None \<Rightarrow> Inl FileNotFoundError | Some n \<Rightarrow> Inr n))"
  by (subst os_stat.simps) (simp add: parent_def)

lemma os_stat_one:
  "os_stat fs [a] = (case fs [a] of None \<Rightarrow> Inl FileNotFoundError | Some n \<Rightarrow> Inr n)"
  by (subst os_stat.simps) (simp add: parent_def os_stat_Nil)

lemma os_stat_two:
  "os_stat fs [a, b] =
     (case os_stat fs [a] of
        Inl e \<Rightarrow> Inl e
      | Inr (RegularFile c) \<Rightarrow> Inl NotADirectoryError
      | Inr Directory \<Rightarrow>
          (case fs [a, b] of None \<Rightarrow> Inl FileNotFoundError | Some n \<Rightarrow> Inr n))"
  by (subst os_stat.simps) (simp add: parent_def)

lemma os_stat_upd_shorter:
  "length q < length p \<Longrightarrow> os_stat (fs(p := v)) q = os_stat fs q"
proof (induction q rule: rev_induct)
  case Nil
  show ?case by (simp add: os_stat_Nil)
next
  case (snoc x q)
  from snoc.prems have lt: "length q < length p" and ne: "q @ [x] \<noteq> p"
    by auto
  from snoc.IH [OF lt] ne show ?case
    by (simp add: os_stat_snoc)
qed

lemma is_dir_parent: "is_dir fs p \<Longrightarrow> is_dir fs (parent p)"
proof (cases p rule: rev_cases)
  case Nil
  then show "is_dir fs p \<Longrightarrow> is_dir fs (parent p)"
    by (simp add: parent_def)
next
  case (snoc q x)
  then show "is_dir fs p \<Longrightarrow> is_dir fs (parent p)"
    by (auto simp: is_dir_def parent_def os_stat_snoc split: sum.splits node.splits)
qed

lemma os_mkdir_result:
  assumes "os_mkdir p fs = (r, fs')"
  shows "(r \<noteq> None \<and> fs' = fs)
       \<or> (r = None \<and> p \<noteq> [] \<and> fs p = None \<and> fs' = fs(p \<mapsto> Directory)
           \<and> is_dir fs (parent p))"
  using assms
  by (auto simp: os_mkdir_def is_dir_def split: if_splits option.splits node.splits sum.splits)

lemma os_mkdir_success_is_dir:
  assumes "os_mkdir p fs = (None, fs')"
  shows "is_dir fs' p"
proof -
  from os_mkdir_result [OF assms]
  have p: "p \<noteq> []" and upd: "fs' = fs(p \<mapsto> Directory)" and par: "is_dir fs (parent p)"
    by auto
  from p obtain q x where px: "p = q @ [x]"
    by (cases p rule: rev_cases) auto
  from par px have "os_stat fs q = Inr Directory"
    by (simp add: is_dir_def parent_def)
  moreover have "os_stat fs' q = os_stat fs q"
    unfolding upd using px by (simp add: os_stat_upd_shorter)
  ultimately show ?thesis
    using px upd by (simp add: is_dir_def os_stat_snoc)
qed


lemma only_adds_dirs_refl: "only_adds_dirs p fs fs"
  by (simp add: only_adds_dirs_def)

lemma only_adds_dirs_upd:
  "p \<noteq> [] \<Longrightarrow> fs p = None \<Longrightarrow> only_adds_dirs p fs (fs(p \<mapsto> Directory))"
  by (simp add: only_adds_dirs_def)

lemma take_butlast_prefix:
  assumes "take (length q) (butlast p) = q"
  shows "take (length q) p = q"
proof -
  have "length (take (length q) (butlast p)) = length q"
    using assms by simp
  then have "length q \<le> length (butlast p)"
    by simp
  with assms show ?thesis
    by (auto simp: butlast_conv_take min_def split: if_splits)
qed

lemma only_adds_dirs_trans:
  assumes "only_adds_dirs (parent p) fs fs1" and "only_adds_dirs p fs1 fs2"
  shows "only_adds_dirs p fs fs2"
  unfolding only_adds_dirs_def
proof
  fix q
  from assms(1) have 1: "fs1 q = fs q
        \<or> (fs q = None \<and> fs1 q = Some Directory \<and> q \<noteq> [] \<and> take (length q) (butlast p) = q)"
    by (simp add: only_adds_dirs_def parent_def)
  from assms(2) have 2: "fs2 q = fs1 q
        \<or> (fs1 q = None \<and> fs2 q = Some Directory \<and> q \<noteq> [] \<and> take (length q) p = q)"
    by (simp add: only_adds_dirs_def)
  from 1 2 take_butlast_prefix [of q p]
  show "fs2 q = fs q
        \<or> (fs q = None \<and> fs2 q = Some Directory \<and> q \<noteq> [] \<and> take (length q) p = q)"
    by auto
qed

lemma os_mkdir_only_adds: "only_adds_dirs p fs (snd (os_mkdir p fs))"
  using os_mkdir_result [of p fs "fst (os_mkdir p fs)" "snd (os_mkdir p fs)"]
  by (auto simp: only_adds_dirs_refl only_adds_dirs_upd)

lemma path_mkdir_only_adds: "only_adds_dirs p fs (snd (path_mkdir parents exist_ok p fs))"
proof (induction parents exist_ok p fs rule: path_mkdir.induct)
  case (1 parents exist_ok p fs)
  obtain r fs' where om: "os_mkdir p fs = (r, fs')"
    by (cases "os_mkdir p fs")
  from os_mkdir_only_adds [of p fs] om have step: "only_adds_dirs p fs fs'"
    by simp
  show ?case
  proof (cases "r = Some FileNotFoundError \<and> \<not> (\<not> parents \<or> parent p = p)")
    case False
    with om step show ?thesis
      by (subst path_mkdir.simps) (auto simp: only_adds_dirs_refl split: option.splits)
  next
    case True
    from os_mkdir_result [OF om] True have same: "fs' = fs"
      by auto
    obtain r1 fs1 where pm: "path_mkdir True True (parent p) fs = (r1, fs1)"
      by (cases "path_mkdir True True (parent p) fs")
    from "1.IH"(1) [of r fs' FileNotFoundError] om True same pm
    have up: "only_adds_dirs (parent p) fs fs1"
      by simp
    show ?thesis
    proof (cases r1)
      case (Some e')
      from only_adds_dirs_trans [OF up only_adds_dirs_refl]
      have "only_adds_dirs p fs fs1" .
      with om True same pm Some show ?thesis
        by (subst path_mkdir.simps) simp
    next
      case None
      from "1.IH"(2) [of r fs' FileNotFoundError r1 fs1] om True same pm None
      have "only_adds_dirs p fs1 (snd (path_mkdir False exist_ok p fs1))"
        by simp
      with up have "only_adds_dirs p fs (snd (path_mkdir False exist_ok p fs1))"
        by (rule only_adds_dirs_trans)
      with om True same pm None show ?thesis
        by (subst path_mkdir.simps) simp
    qed
  qed
qed

lemma path_mkdir_success_is_dir:
  "fst (path_mkdir parents exist_ok p fs) = None
    \<Longrightarrow> is_dir (snd (path_mkdir parents exist_ok p fs)) p"
proof (induction parents exist_ok p fs rule: path_mkdir.induct)
  case (1 parents exist_ok p fs)
  obtain r fs' where om: "os_mkdir p fs = (r, fs')"
    by (cases "os_mkdir p fs")
  note res = os_mkdir_result [OF om]
  show ?case
  proof (cases "r = Some FileNotFoundError \<and> \<not> (\<not> parents \<or> parent p = p)")
    case False
    show ?thesis
    proof (cases r)
      case None
      with om have "is_dir fs' p"
        by (simp add: os_mkdir_success_is_dir)
      with om None show ?thesis
        by (subst path_mkdir.simps) simp
    next
      case (Some e)
      with om res False "1.prems" show ?thesis
        by (subst path_mkdir.simps, subst (asm) path_mkdir.simps)
          (auto split: if_splits)
    qed
  next
    case True
    from res True have same: "fs' = fs"
      by auto
    obtain r1 fs1 where pm: "path_mkdir True True (parent p) fs = (r1, fs1)"
      by (cases "path_mkdir True True (parent p) fs")
    from "1.prems" om True same pm
    have r1: "r1 = None" and ok: "fst (path_mkdir False exist_ok p fs1) = None"
      by (subst (asm) path_mkdir.simps, simp split: option.splits)+
    from "1.IH"(2) [of r fs' FileNotFoundError r1 fs1] om True same pm r1 ok
    have "is_dir (snd (path_mkdir False exist_ok p fs1)) p"
      by simp
    with om True same pm r1 show ?thesis
      by (subst path_mkdir.simps) simp
  qed
qed

lemma path_mkdir_two_levels:
  assumes "regular_files fs [a] = None" and "regular_files fs [a, b] = None"
  shows "fst (path_mkdir True True [a, b] fs) = None"
  using assms
  by (cases "fs [a]"; cases "fs [a, b]")
    (auto simp: path_mkdir.simps os_mkdir_def parent_def is_dir_def regular_files_def
      os_stat_one os_stat_two os_stat_Nil split: node.splits)

lemma only_adds_dirs_regular_files:
  assumes "only_adds_dirs p fs fs'"
  shows "regular_files fs' = regular_files fs"
proof
  fix q
  from assms have "fs' q = fs q \<or> (fs q = None \<and> fs' q = Some Directory)"
    by (auto simp: only_adds_dirs_def)
  then show "regular_files fs' q = regular_files fs q"
    by (auto simp: regular_files_def)
qed

lemma only_adds_dirs_two_levels:
  assumes "only_adds_dirs [a, b] fs fs'" and "q \<noteq> [a]" and "q \<noteq> [a, b]"
  shows "fs' q = fs q"
proof -
  from assms(1) have "fs' q = fs q \<or> (q \<noteq> [] \<and> take (length q) [a, b] = q)"
    by (auto simp: only_adds_dirs_def)
  moreover have "q = [a] \<or> q = [a, b]" if "q \<noteq> []" and "take (length q) [a, b] = q"
  proof (cases q)
    case Nil
    with that show ?thesis by simp
  next
    case (Cons x xs)
    with that show ?thesis
      by (cases xs) (auto simp: take_Cons')
  qed
  ultimately show ?thesis
    using assms(2,3) by blast
qed

section \<open>The test job's matrix\<close>

text \<open>
  C1. For every configuration the \<^verbatim>\<open>rust\<close> dimension of the test job's matrix is the
  two-element list whose first entry is \<^verbatim>\<open>rust_version\<close> and whose second entry is
  \<^verbatim>\<open>rust_msrv\<close>; when the two versions are the same string the list still has both
  entries.
\<close>

theorem test_matrix_rust_two_entries:
  "lookup_path [''jobs'', ''test'', ''strategy'', ''matrix'', ''rust''] (to_github_actions c)
     = Some (JList [JStr (rust_version c), JStr (rust_msrv c)])
   \<and> map_option length
       (Option.bind
          (lookup_path [''jobs'', ''test'', ''strategy'', ''matrix'', ''rust'']
             (to_github_actions c))
          list_items) = Some 2
   \<and> lookup_path [''jobs'', ''test'', ''strategy'', ''matrix'', ''rust'']
       (to_github_actions (c\<lparr>rust_msrv := rust_version c\<rparr>))
     = Some (JList [JStr (rust_version c), JStr (rust_version c)])"
  by (simp add: to_github_actions_def)

text \<open>
  C2. For every configuration the \<^verbatim>\<open>os\<close> dimension of the test job's matrix is the
  \<^verbatim>\<open>platforms\<close> sequence itself, entry by entry, in the same order and with the same
  number of entries. A configuration with no platform is rendered as well: its
  \<^verbatim>\<open>os\<close> dimension is the empty list.
\<close>

theorem test_matrix_os_is_platforms:
  "lookup_path [''jobs'', ''test'', ''strategy'', ''matrix'', ''os''] (to_github_actions c)
     = Some (JList (map JStr (platforms c)))
   \<and> map_option length
       (Option.bind
          (lookup_path [''jobs'', ''test'', ''strategy'', ''matrix'', ''os'']
             (to_github_actions c))
          list_items) = Some (length (platforms c))
   \<and> lookup_path [''jobs'', ''test'', ''strategy'', ''matrix'', ''os'']
       (to_github_actions (c\<lparr>platforms := []\<rparr>))
     = Some (JList [])"
  by (simp add: to_github_actions_def)

section \<open>The steps of the jobs\<close>

text \<open>
  C5. For every configuration the steps of each job are the sequence the source writes,
  in that order: the test job checks out, installs the toolchain, builds and tests; the
  lint job checks out, installs the toolchain, checks the formatting and lints; the wasm
  job checks out, installs the toolchain, installs wasm-pack and builds. Two
  configurations, however different, give the same steps to every job.
\<close>

theorem job_steps_fixed_order:
  "lookup_path [''jobs'', ''test'', ''steps''] (to_github_actions c)
     = Some (JList [
         JDict [(''uses'', JStr ''actions/checkout@v4'')],
         JDict [
           (''name'', JStr ''Install Rust''),
           (''uses'', JStr ''dtolnay/rust-toolchain@master''),
           (''with'', JDict [(''toolchain'', JStr ''${{ matrix.rust }}'')])],
         JDict [(''name'', JStr ''Build''), (''run'', JStr ''cargo build --workspace'')],
         JDict [(''name'', JStr ''Test''), (''run'', JStr ''cargo test --workspace'')]])
   \<and> lookup_path [''jobs'', ''lint'', ''steps''] (to_github_actions c)
     = Some (JList [
         JDict [(''uses'', JStr ''actions/checkout@v4'')],
         JDict [
           (''name'', JStr ''Install Rust''),
           (''uses'', JStr ''dtolnay/rust-toolchain@stable''),
           (''with'', JDict [(''components'', JStr ''rustfmt, clippy'')])],
         JDict [(''name'', JStr ''Format''), (''run'', JStr ''cargo fmt --all -- --check'')],
         JDict [
           (''name'', JStr ''Clippy''),
           (''run'', JStr ''cargo clippy --workspace -- -D warnings'')]])
   \<and> lookup_path [''jobs'', ''wasm'', ''steps''] (to_github_actions c)
     = Some (JList [
         JDict [(''uses'', JStr ''actions/checkout@v4'')],
         JDict [
           (''name'', JStr ''Install Rust''),
           (''uses'', JStr ''dtolnay/rust-toolchain@stable''),
           (''with'', JDict [(''targets'', JStr ''wasm32-unknown-unknown'')])],
         JDict [(''name'', JStr ''Install wasm-pack''), (''run'', JStr ''cargo install wasm-pack'')],
         JDict [
           (''name'', JStr ''Build WASM''),
           (''run'', JStr ''wasm-pack build crates/utf8dok-wasm --target web'')]])
   \<and> lookup_path [''jobs'', ''test'', ''steps''] (to_github_actions c)
     = lookup_path [''jobs'', ''test'', ''steps''] (to_github_actions c')
   \<and> lookup_path [''jobs'', ''lint'', ''steps''] (to_github_actions c)
     = lookup_path [''jobs'', ''lint'', ''steps''] (to_github_actions c')
   \<and> lookup_path [''jobs'', ''wasm'', ''steps''] (to_github_actions c)
     = lookup_path [''jobs'', ''wasm'', ''steps''] (to_github_actions c')"
  by (simp add: to_github_actions_def)

section \<open>Jobs without a matrix\<close>

text \<open>
  C6. For every configuration the lint job and the wasm job are present, each has the
  keys \<^verbatim>\<open>name\<close>, \<^verbatim>\<open>runs-on\<close> and \<^verbatim>\<open>steps\<close> only, and neither the key
  \<^verbatim>\<open>matrix\<close> nor the key \<^verbatim>\<open>strategy\<close> occurs anywhere inside either of them.
\<close>

theorem lint_and_wasm_have_no_matrix:
  "Option.bind (lookup_path [''jobs'', ''lint''] (to_github_actions c)) dict_keys
     = Some [''name'', ''runs-on'', ''steps'']
   \<and> Option.bind (lookup_path [''jobs'', ''wasm''] (to_github_actions c)) dict_keys
     = Some [''name'', ''runs-on'', ''steps'']
   \<and> map_option (has_key ''matrix'') (lookup_path [''jobs'', ''lint''] (to_github_actions c))
     = Some False
   \<and> map_option (has_key ''strategy'') (lookup_path [''jobs'', ''lint''] (to_github_actions c))
     = Some False
   \<and> map_option (has_key ''matrix'') (lookup_path [''jobs'', ''wasm''] (to_github_actions c))
     = Some False
   \<and> map_option (has_key ''strategy'') (lookup_path [''jobs'', ''wasm''] (to_github_actions c))
     = Some False"
  by (simp add: to_github_actions_def)

section \<open>The default configuration\<close>

text \<open>
  C7. The default configuration has \<^verbatim>\<open>rust_version\<close> "stable", \<^verbatim>\<open>rust_msrv\<close>
  "1.70.0" and the platforms ubuntu-latest, macos-latest and windows-latest. Its document
  has the jobs test, lint and wasm and no other; the \<^verbatim>\<open>os\<close> dimension of the test job's
  matrix has three entries and the \<^verbatim>\<open>rust\<close> dimension has two.
\<close>

theorem default_config_three_jobs:
  "rust_version CIConfig_default = ''stable''
   \<and> rust_msrv CIConfig_default = ''1.70.0''
   \<and> platforms CIConfig_default = [''ubuntu-latest'', ''macos-latest'', ''windows-latest'']
   \<and> Option.bind (lookup ''jobs'' (to_github_actions CIConfig_default)) dict_keys
     = Some [''test'', ''lint'', ''wasm'']
   \<and> lookup_path [''jobs'', ''test'', ''strategy'', ''matrix'', ''os'']
       (to_github_actions CIConfig_default)
     = Some (JList [JStr ''ubuntu-latest'', JStr ''macos-latest'', JStr ''windows-latest''])
   \<and> map_option length
       (Option.bind
          (lookup_path [''jobs'', ''test'', ''strategy'', ''matrix'', ''os'']
             (to_github_actions CIConfig_default))
          list_items) = Some 3
   \<and> lookup_path [''jobs'', ''test'', ''strategy'', ''matrix'', ''rust'']
       (to_github_actions CIConfig_default)
     = Some (JList [JStr ''stable'', JStr ''1.70.0''])
   \<and> map_option length
       (Option.bind
          (lookup_path [''jobs'', ''test'', ''strategy'', ''matrix'', ''rust'']
             (to_github_actions CIConfig_default))
          list_items) = Some 2"
  by (simp add: to_github_actions_def CIConfig_default_def)

section \<open>Triggers and environment\<close>

text \<open>
  C8. For every configuration the document's \<^verbatim>\<open>on\<close> entry is the same two triggers, a
  push to the branch main and a pull request to the branch main, and its \<^verbatim>\<open>env\<close> entry
  holds the single variable \<^verbatim>\<open>CARGO_TERM_COLOR\<close> with the value "always". Both are
  the same for any two configurations.
\<close>

theorem triggers_and_env_fixed:
  "lookup ''on'' (to_github_actions c)
     = Some (JDict [
         (''push'', JDict [(''branches'', JList [JStr ''main''])]),
         (''pull_request'', JDict [(''branches'', JList [JStr ''main''])])])
   \<and> lookup ''env'' (to_github_actions c)
     = Some (JDict [(''CARGO_TERM_COLOR'', JStr ''always'')])
   \<and> Option.bind (lookup ''env'' (to_github_actions c)) dict_keys = Some [''CARGO_TERM_COLOR'']
   \<and> lookup ''on'' (to_github_actions c) = lookup ''on'' (to_github_actions c')
   \<and> lookup ''env'' (to_github_actions c) = lookup ''env'' (to_github_actions c')"
  by (simp add: to_github_actions_def)

section \<open>Determinism\<close>

text \<open>
  C9. Two configurations with the same \<^verbatim>\<open>rust_version\<close>, the same \<^verbatim>\<open>rust_msrv\<close> and
  the same \<^verbatim>\<open>platforms\<close> are rendered to the same document: the same keys, the same
  values and the same order in every sequence. This holds also when the two objects
  differ in what else they carry, so the three fields are all that the document depends
  on; and two configurations that differ in one of the three fields are rendered to
  different documents.
\<close>

theorem render_deterministic:
  fixes c :: "'a CIConfig_scheme" and c' :: "'b CIConfig_scheme"
  shows "(rust_version c = rust_version c'
          \<and> rust_msrv c = rust_msrv c'
          \<and> platforms c = platforms c')
         = (to_github_actions c = to_github_actions c')"
proof -
  have "inj JStr"
    by (simp add: inj_def)
  then have "(map JStr (platforms c) = map JStr (platforms c')) = (platforms c = platforms c')"
    by (rule inj_map_eq_map)
  then show ?thesis
    by (auto simp: to_github_actions_def)
qed

theorem render_deterministic_witness:
  "to_github_actions CIConfig_default
     = to_github_actions
         \<lparr> rust_version = ''stable'',
           rust_msrv = ''1.70.0'',
           platforms = [''ubuntu-latest'', ''macos-latest'', ''windows-latest''],
           \<dots> = ''an attribute set on the instance'' \<rparr>
   \<and> to_github_actions CIConfig_default
     \<noteq> to_github_actions (CIConfig_default\<lparr>rust_msrv := ''1.71.0''\<rparr>)"
proof -
  from render_deterministic
    [of CIConfig_default
        "\<lparr> rust_version = ''stable'',
           rust_msrv = ''1.70.0'',
           platforms = [''ubuntu-latest'', ''macos-latest'', ''windows-latest''],
           \<dots> = ''an attribute set on the instance'' \<rparr>"]
  have same: "to_github_actions CIConfig_default
     = to_github_actions
         \<lparr> rust_version = ''stable'',
           rust_msrv = ''1.70.0'',
           platforms = [''ubuntu-latest'', ''macos-latest'', ''windows-latest''],
           \<dots> = ''an attribute set on the instance'' \<rparr>"
    by (simp add: CIConfig_default_def)
  from render_deterministic
    [of CIConfig_default "CIConfig_default\<lparr>rust_msrv := ''1.71.0''\<rparr>"]
  have "to_github_actions CIConfig_default
     \<noteq> to_github_actions (CIConfig_default\<lparr>rust_msrv := ''1.71.0''\<rparr>)"
    by (simp add: CIConfig_default_def)
  with same show ?thesis
    by simp
qed

section \<open>The command line\<close>

lemma generate_result:
  "main_py (prog # ''generate'' # rest) w =
     (case fst (path_mkdir True True [''.github'', ''workflows''] (disk w)) of
        Some e \<Rightarrow>
          (Inl e, w\<lparr>disk := snd (path_mkdir True True [''.github'', ''workflows''] (disk w))\<rparr>)
      | None \<Rightarrow>
          (Inr 0,
           w\<lparr>disk := snd (path_mkdir True True [''.github'', ''workflows''] (disk w)),
             stdout := stdout w @ [
               ''Generated CI configuration for: ubuntu-latest, macos-latest, windows-latest'',
               ''Rust versions: stable, MSRV: 1.70.0'',
               ''Output would be written to: .github/workflows/ci.yml'']\<rparr>))"
  by (simp add: main_py_def generate_workflow_def parent_def print_py_def str_path_def
      CIConfig_default_def Let_def split: prod.splits option.splits)

lemma generate_disk:
  "disk (snd (main_py (prog # ''generate'' # rest) w))
     = snd (path_mkdir True True [''.github'', ''workflows''] (disk w))"
  by (simp add: generate_result split: option.splits)

lemma generate_only_adds_dirs:
  "only_adds_dirs [''.github'', ''workflows''] (disk w)
     (disk (snd (main_py (prog # ''generate'' # rest) w)))"
  by (simp add: generate_disk path_mkdir_only_adds)

lemma regular_files_world_empty: "regular_files (disk world_empty) p = None"
  by (simp add: regular_files_def world_empty_def)

lemma mkdir_world_empty:
  "path_mkdir True True [''.github'', ''workflows''] (disk world_empty)
     = (None, (disk world_empty)(
         [''.github''] \<mapsto> Directory,
         [''.github'', ''workflows''] \<mapsto> Directory))"
  by (simp add: world_empty_def path_mkdir.simps os_mkdir_def parent_def os_stat_one
      os_stat_Nil)

lemma mkdir_world_blocked:
  "path_mkdir True True [''.github'', ''workflows''] (disk world_blocked)
     = (Some NotADirectoryError, disk world_blocked)"
  by (simp add: world_blocked_def path_mkdir.simps os_mkdir_def parent_def os_stat_one
      os_stat_two os_stat_Nil is_dir_def)

lemma mkdir_world_clash:
  "path_mkdir True True [''.github'', ''workflows''] (disk world_clash)
     = (Some FileExistsError, disk world_clash)"
  by (simp add: world_clash_def path_mkdir.simps os_mkdir_def parent_def os_stat_one
      os_stat_two os_stat_Nil is_dir_def)

text \<open>
  C3. The claim has the command generate hand the rendered document to a writer that
  leaves it at the workflow path. Run as \<^verbatim>\<open>ci-cd.py generate\<close> in an empty working
  directory, the command makes the directories \<^verbatim>\<open>.github\<close> and \<^verbatim>\<open>.github/workflows\<close>,
  prints its three lines and returns 0, and that is all: nothing exists at
  \<^verbatim>\<open>.github/workflows/ci.yml\<close> afterwards, and no regular file exists anywhere.
\<close>

theorem generate_leaves_no_workflow_file:
  "main_py [''ci-cd.py'', ''generate''] world_empty =
     (Inr 0,
      world_empty\<lparr>
        disk := (disk world_empty)(
          [''.github''] \<mapsto> Directory,
          [''.github'', ''workflows''] \<mapsto> Directory),
        stdout := [
          ''Generated CI configuration for: ubuntu-latest, macos-latest, windows-latest'',
          ''Rust versions: stable, MSRV: 1.70.0'',
          ''Output would be written to: .github/workflows/ci.yml'']\<rparr>)
   \<and> disk (snd (main_py [''ci-cd.py'', ''generate''] world_empty))
       [''.github'', ''workflows'', ''ci.yml''] = None
   \<and> regular_files (disk (snd (main_py [''ci-cd.py'', ''generate''] world_empty)))
       [''.github'', ''workflows'', ''ci.yml''] = None
   \<and> regular_files (disk (snd (main_py [''ci-cd.py'', ''generate''] world_empty)))
     = regular_files (disk world_empty)"
proof -
  have run: "main_py [''ci-cd.py'', ''generate''] world_empty =
     (Inr 0,
      world_empty\<lparr>
        disk := (disk world_empty)(
          [''.github''] \<mapsto> Directory,
          [''.github'', ''workflows''] \<mapsto> Directory),
        stdout := [
          ''Generated CI configuration for: ubuntu-latest, macos-latest, windows-latest'',
          ''Rust versions: stable, MSRV: 1.70.0'',
          ''Output would be written to: .github/workflows/ci.yml'']\<rparr>)"
    by (simp add: generate_result mkdir_world_empty) (simp add: world_empty_def)
  have files: "regular_files (disk (snd (main_py [''ci-cd.py'', ''generate''] world_empty)))
      = regular_files (disk world_empty)"
    using generate_only_adds_dirs by (rule only_adds_dirs_regular_files)
  from run have "disk (snd (main_py [''ci-cd.py'', ''generate''] world_empty))
       [''.github'', ''workflows'', ''ci.yml''] = None"
    by (simp add: world_empty_def)
  with run files show ?thesis
    by (simp add: regular_files_world_empty)
qed

text \<open>
  C4. An invocation with fewer than two entries in \<^verbatim>\<open>sys.argv\<close> prints the module's
  docstring (the usage text) and returns 1. The command validate prints "Validation not
  yet implemented" and returns 0. A command that is neither generate nor validate prints
  "Unknown command: " followed by the command and returns 1. None of the three touches the
  file system, and arguments after the command are ignored.
\<close>

theorem main_dispatch:
  "(length argv < 2 \<longrightarrow>
      main_py argv w = (Inr 1, w\<lparr>stdout := stdout w @ [module_doc]\<rparr>))
   \<and> main_py (prog # ''validate'' # rest) w
     = (Inr 0, w\<lparr>stdout := stdout w @ [''Validation not yet implemented'']\<rparr>)
   \<and> (command \<noteq> ''generate'' \<longrightarrow> command \<noteq> ''validate'' \<longrightarrow>
        main_py (prog # command # rest) w
        = (Inr 1, w\<lparr>stdout := stdout w @ [''Unknown command: '' @ command]\<rparr>))"
  by (simp add: main_py_def print_py_def)

theorem main_dispatch_witness:
  "main_py [''ci-cd.py''] world_empty
     = (Inr 1, world_empty\<lparr>stdout := [module_doc]\<rparr>)
   \<and> main_py [''ci-cd.py'', ''validate''] world_empty
     = (Inr 0, world_empty\<lparr>stdout := [''Validation not yet implemented'']\<rparr>)
   \<and> main_py [''ci-cd.py'', ''frobnicate''] world_empty
     = (Inr 1, world_empty\<lparr>stdout := [''Unknown command: frobnicate'']\<rparr>)"
  using main_dispatch [of "[''ci-cd.py'']" world_empty "''ci-cd.py''" "[]" "''frobnicate''"]
  by (simp add: world_empty_def)

text \<open>
  C10. As the claim has it, the command generate always goes on to print the summary and
  to return 0. It does not when \<^verbatim>\<open>.github\<close> is a regular file: \<^verbatim>\<open>mkdir\<close> raises
  \<^verbatim>\<open>NotADirectoryError\<close>, which leaves \<^verbatim>\<open>main\<close> uncaught, and nothing is printed.
\<close>

theorem generate_raises_when_github_is_a_file:
  "fst (main_py [''ci-cd.py'', ''generate''] world_blocked) = Inl NotADirectoryError
   \<and> fst (main_py [''ci-cd.py'', ''generate''] world_blocked) \<noteq> Inr 0
   \<and> stdout (snd (main_py [''ci-cd.py'', ''generate''] world_blocked)) = []"
  by (simp add: generate_result mkdir_world_blocked) (simp add: world_blocked_def)

text \<open>
  C10, as amended. The command generate writes no file. Whatever the file system holds
  and whether the command returns or raises, the regular files afterwards are those
  before, with the same contents; every path other than \<^verbatim>\<open>.github\<close> and
  \<^verbatim>\<open>.github/workflows\<close> holds what it held; and a path that changed held nothing and now
  is a directory. When the call of \<^verbatim>\<open>mkdir\<close> raises nothing, \<^verbatim>\<open>.github\<close> and
  \<^verbatim>\<open>.github/workflows\<close> are directories afterwards, the three lines of the summary have
  been printed and the command returns 0. When it raises, the exception leaves
  \<^verbatim>\<open>main\<close> and nothing has been printed. In a file system of directories and regular
  files only, the call raises nothing whenever neither of the two paths holds a regular
  file.
\<close>

theorem generate_only_creates_directories:
  "regular_files (disk (snd (main_py (prog # ''generate'' # rest) w)))
     = regular_files (disk w)
   \<and> (q \<noteq> [''.github''] \<longrightarrow> q \<noteq> [''.github'', ''workflows''] \<longrightarrow>
        disk (snd (main_py (prog # ''generate'' # rest) w)) q = disk w q)
   \<and> (disk (snd (main_py (prog # ''generate'' # rest) w)) q = disk w q
        \<or> (disk w q = None
            \<and> disk (snd (main_py (prog # ''generate'' # rest) w)) q = Some Directory))
   \<and> (fst (path_mkdir True True [''.github'', ''workflows''] (disk w)) = None \<longrightarrow>
        fst (main_py (prog # ''generate'' # rest) w) = Inr 0
        \<and> is_dir (disk (snd (main_py (prog # ''generate'' # rest) w))) [''.github'']
        \<and> is_dir (disk (snd (main_py (prog # ''generate'' # rest) w)))
            [''.github'', ''workflows'']
        \<and> stdout (snd (main_py (prog # ''generate'' # rest) w)) =
            stdout w @ [
              ''Generated CI configuration for: ubuntu-latest, macos-latest, windows-latest'',
              ''Rust versions: stable, MSRV: 1.70.0'',
              ''Output would be written to: .github/workflows/ci.yml''])
   \<and> (fst (path_mkdir True True [''.github'', ''workflows''] (disk w)) = Some e \<longrightarrow>
        fst (main_py (prog # ''generate'' # rest) w) = Inl e
        \<and> stdout (snd (main_py (prog # ''generate'' # rest) w)) = stdout w)
   \<and> (regular_files (disk w) [''.github''] = None \<longrightarrow>
       regular_files (disk w) [''.github'', ''workflows''] = None \<longrightarrow>
        fst (path_mkdir True True [''.github'', ''workflows''] (disk w)) = None)"
proof -
  let ?after = "disk (snd (main_py (prog # ''generate'' # rest) w))"
  let ?mkdir = "path_mkdir True True [''.github'', ''workflows''] (disk w)"
  note adds = generate_only_adds_dirs [of w prog rest]
  have files: "regular_files ?after = regular_files (disk w)"
    using adds by (rule only_adds_dirs_regular_files)
  have frame: "?after q = disk w q" if "q \<noteq> [''.github'']" "q \<noteq> [''.github'', ''workflows'']"
    using adds that by (rule only_adds_dirs_two_levels)
  have grow: "?after q = disk w q \<or> (disk w q = None \<and> ?after q = Some Directory)"
    using adds by (auto simp: only_adds_dirs_def)
  have succeeds:
    "fst (main_py (prog # ''generate'' # rest) w) = Inr 0
     \<and> is_dir ?after [''.github'']
     \<and> is_dir ?after [''.github'', ''workflows'']
     \<and> stdout (snd (main_py (prog # ''generate'' # rest) w)) =
         stdout w @ [
           ''Generated CI configuration for: ubuntu-latest, macos-latest, windows-latest'',
           ''Rust versions: stable, MSRV: 1.70.0'',
           ''Output would be written to: .github/workflows/ci.yml'']"
    if ok: "fst ?mkdir = None"
  proof -
    from path_mkdir_success_is_dir [OF ok]
    have inner: "is_dir ?after [''.github'', ''workflows'']"
      by (simp add: generate_disk)
    from is_dir_parent [OF inner] have "is_dir ?after [''.github'']"
      by (simp add: parent_def)
    with inner ok show ?thesis
      by (simp add: generate_result)
  qed
  have raises:
    "fst (main_py (prog # ''generate'' # rest) w) = Inl e
     \<and> stdout (snd (main_py (prog # ''generate'' # rest) w)) = stdout w"
    if "fst ?mkdir = Some e"
    using that by (simp add: generate_result)
  have enough: "fst ?mkdir = None"
    if "regular_files (disk w) [''.github''] = None"
      "regular_files (disk w) [''.github'', ''workflows''] = None"
    using that by (rule path_mkdir_two_levels)
  from files frame grow succeeds raises enough show ?thesis
    by blast
qed

theorem generate_only_creates_directories_witness:
  "fst (main_py [''ci-cd.py'', ''generate''] world_stale) = Inr 0
   \<and> regular_files (disk (snd (main_py [''ci-cd.py'', ''generate''] world_stale)))
     = regular_files (disk world_stale)
   \<and> disk (snd (main_py [''ci-cd.py'', ''generate''] world_stale))
       [''.github'', ''workflows'', ''ci.yml''] = Some (RegularFile ''name: old'')
   \<and> is_dir (disk (snd (main_py [''ci-cd.py'', ''generate''] world_stale))) [''.github'']
   \<and> is_dir (disk (snd (main_py [''ci-cd.py'', ''generate''] world_stale)))
       [''.github'', ''workflows'']
   \<and> stdout (snd (main_py [''ci-cd.py'', ''generate''] world_stale)) = [
       ''Generated CI configuration for: ubuntu-latest, macos-latest, windows-latest'',
       ''Rust versions: stable, MSRV: 1.70.0'',
       ''Output would be written to: .github/workflows/ci.yml'']
   \<and> fst (main_py [''ci-cd.py'', ''generate''] world_clash) = Inl FileExistsError
   \<and> stdout (snd (main_py [''ci-cd.py'', ''generate''] world_clash)) = []
   \<and> regular_files (disk (snd (main_py [''ci-cd.py'', ''generate''] world_clash)))
     = regular_files (disk world_clash)"
proof -
  have none: "regular_files (disk world_stale) [''.github''] = None"
    "regular_files (disk world_stale) [''.github'', ''workflows''] = None"
    by (simp_all add: regular_files_def world_stale_def)
  have held: "disk world_stale [''.github'', ''workflows'', ''ci.yml'']
      = Some (RegularFile ''name: old'')"
    and out: "stdout world_stale = []"
    by (simp_all add: world_stale_def)
  have clash: "fst (path_mkdir True True [''.github'', ''workflows''] (disk world_clash))
      = Some FileExistsError"
    and out': "stdout world_clash = []"
    by (simp_all add: mkdir_world_clash) (simp add: world_clash_def)
  from generate_only_creates_directories
    [of "''ci-cd.py''" "[]" world_stale "[''.github'', ''workflows'', ''ci.yml'']"]
    none held out
  have stale: "fst (main_py [''ci-cd.py'', ''generate''] world_stale) = Inr 0
   \<and> regular_files (disk (snd (main_py [''ci-cd.py'', ''generate''] world_stale)))
     = regular_files (disk world_stale)
   \<and> disk (snd (main_py [''ci-cd.py'', ''generate''] world_stale))
       [''.github'', ''workflows'', ''ci.yml''] = Some (RegularFile ''name: old'')
   \<and> is_dir (disk (snd (main_py [''ci-cd.py'', ''generate''] world_stale))) [''.github'']
   \<and> is_dir (disk (snd (main_py [''ci-cd.py'', ''generate''] world_stale)))
       [''.github'', ''workflows'']
   \<and> stdout (snd (main_py [''ci-cd.py'', ''generate''] world_stale)) = [
       ''Generated CI configuration for: ubuntu-latest, macos-latest, windows-latest'',
       ''Rust versions: stable, MSRV: 1.70.0'',
       ''Output would be written to: .github/workflows/ci.yml'']"
    by simp
  from generate_only_creates_directories
    [of "''ci-cd.py''" "[]" world_clash "[]" FileExistsError]
    clash out'
  have "fst (main_py [''ci-cd.py'', ''generate''] world_clash) = Inl FileExistsError
   \<and> stdout (snd (main_py [''ci-cd.py'', ''generate''] world_clash)) = []
   \<and> regular_files (disk (snd (main_py [''ci-cd.py'', ''generate''] world_clash)))
     = regular_files (disk world_clash)"
    by simp
  with stale show ?thesis
    by simp
qed

end
